theory Spec2Isabelle
  imports Main
begin

section \<open>Values that cross the bridge\<close>

text \<open>
  The host hands the plugin untyped data (\<open>any\<close> in the TypeScript source). The run-time
  checks of the source (\<open>!x\<close>, \<open>typeof x\<close>, \<open>x.field\<close>, \<open>a !== b\<close>) are modelled on a
  datatype of JavaScript values. Numbers are restricted to the integers and NaN; objects
  and functions carry a reference, since \<open>!==\<close> compares them by identity.
\<close>

datatype jsval =
    JUndefined
  | JNull
  | JBool bool
  | JNum int
  | JNaN
  | JStr string
  | JObj nat "(string \<times> jsval) list"
  | JFun nat

text \<open>\<open>!x\<close> is \<open>\<not> truthy x\<close>.\<close>

fun truthy :: "jsval \<Rightarrow> bool" where
  "truthy JUndefined = False"
| "truthy JNull = False"
| "truthy (JBool b) = b"
| "truthy (JNum n) = (n \<noteq> 0)"
| "truthy JNaN = False"
| "truthy (JStr s) = (s \<noteq> [])"
| "truthy (JObj r fs) = True"
| "truthy (JFun r) = True"

fun js_typeof :: "jsval \<Rightarrow> string" where
  "js_typeof JUndefined = ''undefined''"
| "js_typeof JNull = ''object''"
| "js_typeof (JBool b) = ''boolean''"
| "js_typeof (JNum n) = ''number''"
| "js_typeof JNaN = ''number''"
| "js_typeof (JStr s) = ''string''"
| "js_typeof (JObj r fs) = ''object''"
| "js_typeof (JFun r) = ''function''"

text \<open>
  Property read \<open>x[f]\<close>. The source reads only \<open>pageId\<close>, \<open>pageName\<close> and \<open>pageRoute\<close>,
  and only from values it has found truthy, so the TypeError of a read from \<open>null\<close> or
  \<open>undefined\<close> is never reached; a primitive has none of the three properties.
\<close>

fun js_get :: "jsval \<Rightarrow> string \<Rightarrow> jsval" where
  "js_get (JObj r fs) f = (case map_of fs f of Some v \<Rightarrow> v | None \<Rightarrow> JUndefined)"
| "js_get v f = JUndefined"

text \<open>Strict equality \<open>a === b\<close>; \<open>a !== b\<close> is its negation.\<close>

fun strict_eq :: "jsval \<Rightarrow> jsval \<Rightarrow> bool" where
  "strict_eq JNaN b = False"
| "strict_eq a JNaN = False"
| "strict_eq (JObj r fs) (JObj r' fs') = (r = r')"
| "strict_eq a b = (a = b)"

text \<open>The record \<open>PageContextData\<close> of the source, and the object that carries it.\<close>

record PageContextData =
  pageId :: string
  pageName :: string
  pageRoute :: string

definition context_obj :: "nat \<Rightarrow> PageContextData \<Rightarrow> jsval" where
  "context_obj r c =
     JObj r [(''pageId'', JStr (pageId c)), (''pageName'', JStr (pageName c)),
             (''pageRoute'', JStr (pageRoute c))]"

section \<open>The host bridge\<close>

text \<open>
  The bridge is owned by the host. A method slot of the bridge is either not a function,
  or a function whose call throws, or a function whose call returns. A thrown value is an
  \<open>Error\<close> with its message, or something else.
\<close>

datatype thrown = ErrorWith string | NonError

datatype 'a host_method = NotFunction | Throws thrown | Returns 'a

text \<open>\<open>typeof m === 'function'\<close>.\<close>

definition is_function :: "'a host_method \<Rightarrow> bool" where
  "is_function m = (m \<noteq> NotFunction)"

text \<open>
  Calling a slot. Calling what is not a function throws a TypeError, an \<open>Error\<close> whose
  message text belongs to the JavaScript engine; a fixed text stands for it.
\<close>

definition call_method :: "'a host_method \<Rightarrow> thrown + 'a" where
  "call_method m =
     (case m of
        NotFunction \<Rightarrow> Inl (ErrorWith ''is not a function'')
      | Throws e \<Rightarrow> Inl e
      | Returns v \<Rightarrow> Inr v)"

text \<open>The unsubscribe function that the bridge returns: calling it works or throws.\<close>

datatype teardown = TeardownOk | TeardownThrows thrown

record PageContextServiceBridge =
  bridge_ref :: nat
  getCurrentPageContext_b :: "jsval host_method"
  onPageContextChange_b :: "teardown host_method"

record Services =
  pageContext :: "PageContextServiceBridge option"

section \<open>The listener component (PageContextListener)\<close>

type_synonym iso_time = string

record PageContextChange =
  timestamp :: iso_time
  previousContext :: jsval
  newContext :: jsval
  changeType :: string

text \<open>The status line is display text; its variants are kept, its decoration is not.\<close>

datatype status_text =
    StatusInitializing
  | StatusWaiting
  | StatusActive
  | StatusChanged string iso_time
  | StatusFailed string
  | StatusCleared

record PageContextListenerState =
  isServiceConnected :: bool
  isListening :: bool
  error :: string
  status :: status_text
  changeHistory :: "PageContextChange list"
  currentContext :: jsval

record PageContextListener =
  services :: "Services option"
  state :: PageContextListenerState
  pageContextUnsubscribe :: "teardown option"

definition constructor_state :: PageContextListenerState where
  "constructor_state =
     \<lparr>isServiceConnected = False, isListening = False, error = '''',
      status = StatusInitializing, changeHistory = [], currentContext = JNull\<rparr>"

definition new_listener :: "Services option \<Rightarrow> PageContextListener" where
  "new_listener props =
     \<lparr>services = props, state = constructor_state, pageContextUnsubscribe = None\<rparr>"

text \<open>
  \<open>cleanup\<close>: calls the stored unsubscribe function and forgets it. When the call throws,
  the exception is caught before the field is cleared.
\<close>

definition cleanup :: "PageContextListener \<Rightarrow> PageContextListener" where
  "cleanup c =
     (case pageContextUnsubscribe c of
        None \<Rightarrow> c
      | Some TeardownOk \<Rightarrow> c\<lparr>pageContextUnsubscribe := None\<rparr>
      | Some (TeardownThrows e) \<Rightarrow> c)"

text \<open>The chain of tests that determines the change type, in the order of the source.\<close>

definition determineChangeType :: "jsval \<Rightarrow> jsval \<Rightarrow> string" where
  "determineChangeType previous new =
     (if \<not> truthy previous then ''Initial Load''
      else if \<not> strict_eq (js_get previous ''pageId'') (js_get new ''pageId'')
        then ''Page Navigation''
      else if \<not> strict_eq (js_get previous ''pageName'') (js_get new ''pageName'')
        then ''Page Name Change''
      else if \<not> strict_eq (js_get previous ''pageRoute'') (js_get new ''pageRoute'')
        then ''Route Change''
      else ''Context Update'')"

text \<open>
  The listener that \<open>initializePageContextListener\<close> registers with the bridge. The time
  is what \<open>new Date().toISOString()\<close> reads. Each notification is processed on the state
  left by the one before it. Nothing in the body throws, so its catch clause is not
  reached.
\<close>

definition onChange :: "iso_time \<Rightarrow> jsval \<Rightarrow> PageContextListenerState \<Rightarrow> PageContextListenerState" where
  "onChange now new st =
     (let previous = currentContext st in
      if \<not> truthy new \<or> js_typeof new \<noteq> ''object'' then st
      else
        let kind = determineChangeType previous new;
            changeRecord = \<lparr>timestamp = now, previousContext = previous,
                            newContext = new, changeType = kind\<rparr>
        in st\<lparr>currentContext := new,
               changeHistory := changeRecord # take 9 (changeHistory st),
               status := StatusChanged kind now\<rparr>)"

text \<open>
  The body of the try block of \<open>initializePageContextListener\<close>: \<open>Inl\<close> is the value
  thrown to the catch clause, \<open>Inr\<close> the component when the block completes.
\<close>

definition initialize_try :: "iso_time \<Rightarrow> PageContextListener \<Rightarrow> thrown + PageContextListener" where
  "initialize_try now c =
     (case services c of
        None \<Rightarrow> Inl (ErrorWith ''Services not provided to component'')
      | Some svcs \<Rightarrow>
          (case pageContext svcs of
             None \<Rightarrow>
               Inr (c\<lparr>state := (state c)\<lparr>status := StatusWaiting, isServiceConnected := False,
                                         isListening := False, error := '''',
                                         changeHistory := []\<rparr>\<rparr>)
           | Some bridge \<Rightarrow>
               if \<not> is_function (onPageContextChange_b bridge)
                 then Inl (ErrorWith ''PageContext Service missing onPageContextChange method'')
               else if \<not> is_function (getCurrentPageContext_b bridge)
                 then Inl (ErrorWith ''PageContext Service missing getCurrentPageContext method'')
               else
                 let initialContext =
                       (case call_method (getCurrentPageContext_b bridge) of
                          Inr v \<Rightarrow> v
                        | Inl contextError \<Rightarrow> JNull)
                 in (case call_method (onPageContextChange_b bridge) of
                       Inl e \<Rightarrow> Inl e
                     | Inr unsubscribe \<Rightarrow>
                         let initialHistory =
                               (if truthy initialContext
                                then [\<lparr>timestamp = now, previousContext = JNull,
                                       newContext = initialContext,
                                       changeType = ''Initial Load''\<rparr>]
                                else [])
                         in Inr (c\<lparr>pageContextUnsubscribe := Some unsubscribe,
                                   state := (state c)\<lparr>currentContext := initialContext,
                                                      changeHistory := initialHistory,
                                                      isServiceConnected := True,
                                                      isListening := True,
                                                      status := StatusActive,
                                                      error := ''''\<rparr>\<rparr>))))"

text \<open>The catch clause: the message of an \<open>Error\<close>, a fixed text for any other value.\<close>

definition initialize_catch :: "thrown \<Rightarrow> PageContextListener \<Rightarrow> PageContextListener" where
  "initialize_catch e c =
     (let errorMessage =
            (case e of ErrorWith m \<Rightarrow> m
                     | NonError \<Rightarrow> ''PageContext Listener initialization failed'')
      in c\<lparr>state := (state c)\<lparr>status := StatusFailed errorMessage,
                                isServiceConnected := False,
                                isListening := False,
                                error := errorMessage\<rparr>\<rparr>)"

definition initializePageContextListener :: "iso_time \<Rightarrow> PageContextListener \<Rightarrow> PageContextListener" where
  "initializePageContextListener now c0 =
     (let c = cleanup c0 in
      case initialize_try now c of
        Inr c' \<Rightarrow> c'
      | Inl e \<Rightarrow> initialize_catch e c)"

text \<open>
  The bridge calls the registered listener for as long as the component holds the
  unsubscribe function of that registration.
\<close>

definition notify :: "iso_time \<Rightarrow> jsval \<Rightarrow> PageContextListener \<Rightarrow> PageContextListener" where
  "notify now new c =
     (case pageContextUnsubscribe c of
        None \<Rightarrow> c
      | Some u \<Rightarrow> c\<lparr>state := onChange now new (state c)\<rparr>)"

definition handleClearHistory :: "PageContextListener \<Rightarrow> PageContextListener" where
  "handleClearHistory c = c\<lparr>state := (state c)\<lparr>changeHistory := [], status := StatusCleared\<rparr>\<rparr>"

text \<open>
  \<open>componentDidUpdate\<close>: the new props replace the old ones, and the listener is set up
  again when the bridge of the new props is not the bridge of the old ones.
\<close>

definition bridge_of :: "Services option \<Rightarrow> nat option" where
  "bridge_of props =
     (case props of
        None \<Rightarrow> None
      | Some svcs \<Rightarrow> map_option bridge_ref (pageContext svcs))"

definition componentDidUpdate :: "iso_time \<Rightarrow> Services option \<Rightarrow> PageContextListener \<Rightarrow> PageContextListener" where
  "componentDidUpdate now props c =
     (if bridge_of (services c) \<noteq> bridge_of props
      then initializePageContextListener now (c\<lparr>services := props\<rparr>)
      else c\<lparr>services := props\<rparr>)"

datatype event =
    DidMount iso_time
  | DidUpdate iso_time "Services option"
  | Notification iso_time jsval
  | ClearHistory
  | WillUnmount

fun step :: "PageContextListener \<Rightarrow> event \<Rightarrow> PageContextListener" where
  "step c (DidMount now) = initializePageContextListener now c"
| "step c (DidUpdate now props) = componentDidUpdate now props c"
| "step c (Notification now new) = notify now new c"
| "step c ClearHistory = handleClearHistory c"
| "step c WillUnmount = cleanup c"

definition run :: "PageContextListener \<Rightarrow> event list \<Rightarrow> PageContextListener" where
  "run c evs = foldl step c evs"

section \<open>The service wrapper (PluginPageContextService)\<close>

record PageContextServiceError =
  message :: string
  code :: string

text \<open>
  \<open>PageContextValidator.validatePageContext\<close>: an object whose three required fields are
  strings; the loop over \<open>requiredFields\<close> stops at the first field that is not one.
\<close>

definition requiredFields :: "string list" where
  "requiredFields = [''pageId'', ''pageName'', ''pageRoute'']"

fun fields_are_strings :: "jsval \<Rightarrow> string list \<Rightarrow> bool" where
  "fields_are_strings context [] = True"
| "fields_are_strings context (field # rest) =
     (if js_typeof (js_get context field) \<noteq> ''string'' then False
      else fields_are_strings context rest)"

definition validatePageContext :: "jsval \<Rightarrow> bool" where
  "validatePageContext context =
     (if \<not> truthy context \<or> js_typeof context \<noteq> ''object'' then False
      else fields_are_strings context requiredFields)"

definition validateListener :: "jsval \<Rightarrow> bool" where
  "validateListener listener = (js_typeof listener = ''function'')"

text \<open>
  The fields of the class. \<open>listeners\<close> is a JavaScript \<open>Set\<close>: no duplicates, insertion
  order. The cached context is named \<open>cachedContext\<close> here, \<open>currentContext\<close> being the
  field of the component state above.
\<close>

record PluginPageContextService =
  pluginId :: string
  moduleId :: string
  serviceBridge :: "PageContextServiceBridge option"
  isConnected :: bool
  listeners :: "jsval list"
  cachedContext :: jsval
  operationCount :: nat

definition createPageContextService :: "string \<Rightarrow> string \<Rightarrow> PluginPageContextService" where
  "createPageContextService p m =
     \<lparr>pluginId = p, moduleId = m, serviceBridge = None, isConnected = False,
      listeners = [], cachedContext = JNull, operationCount = 0\<rparr>"

text \<open>\<open>error instanceof Error ? error.message : 'Unknown error'\<close>\<close>

definition message_of :: "thrown \<Rightarrow> string" where
  "message_of e = (case e of ErrorWith m \<Rightarrow> m | NonError \<Rightarrow> ''Unknown error'')"

definition setServiceBridge ::
  "PageContextServiceBridge option \<Rightarrow> PluginPageContextService \<Rightarrow>
   PageContextServiceError + PluginPageContextService" where
  "setServiceBridge bridge s =
     (case bridge of
        None \<Rightarrow> Inl \<lparr>message = ''Service bridge cannot be null'', code = ''INVALID_BRIDGE''\<rparr>
      | Some b \<Rightarrow>
          Inr (s\<lparr>serviceBridge := Some b,
                 isConnected := True,
                 cachedContext :=
                   (case call_method (getCurrentPageContext_b b) of
                      Inr v \<Rightarrow> v
                    | Inl e \<Rightarrow> JNull)\<rparr>))"

definition isServiceAvailable :: "PluginPageContextService \<Rightarrow> bool" where
  "isServiceAvailable s = (serviceBridge s \<noteq> None \<and> isConnected s)"

definition service_unavailable :: PageContextServiceError where
  "service_unavailable =
     \<lparr>message = ''PageContext Service not available. Ensure setServiceBridge() was called.'',
      code = ''SERVICE_UNAVAILABLE''\<rparr>"

text \<open>
  \<open>getCurrentPageContext\<close>: the value returned together with the updated service, or the
  error thrown; nothing is updated before a throw.
\<close>

definition getCurrentPageContext ::
  "PluginPageContextService \<Rightarrow> PageContextServiceError + (jsval \<times> PluginPageContextService)" where
  "getCurrentPageContext s =
     (if \<not> isServiceAvailable s then Inl service_unavailable
      else
        case serviceBridge s of
          None \<Rightarrow> Inl service_unavailable
        | Some b \<Rightarrow>
            (case call_method (getCurrentPageContext_b b) of
               Inl e \<Rightarrow>
                 Inl \<lparr>message = ''Failed to get page context: '' @ message_of e,
                      code = ''GET_CONTEXT_FAILED''\<rparr>
             | Inr context \<Rightarrow>
                 if truthy context \<and> \<not> validatePageContext context
                 then Inl \<lparr>message = ''Invalid page context returned from service'',
                           code = ''INVALID_CONTEXT''\<rparr>
                 else Inr (context, s\<lparr>cachedContext := context,
                                      operationCount := operationCount s + 1\<rparr>)))"

text \<open>
  The wrapper holds no registry of its own for the bridge: the listeners that the bridge
  has registered live in the host. The host side is modelled by its contract: each call
  of the bridge's \<open>onPageContextChange\<close> registers the function it is given, the
  function it returns removes that registration, and a notification calls the registered
  functions in order. A registration made by the wrapper is the forwarding function that
  captured the caller's listener; \<open>delivered\<close> records the calls of the callers' listeners.
\<close>

record world =
  service :: PluginPageContextService
  registry :: "(nat \<times> jsval) list"
  next_registration :: nat
  delivered :: "(jsval \<times> jsval) list"

definition new_world :: "PluginPageContextService \<Rightarrow> world" where
  "new_world s = \<lparr>service = s, registry = [], next_registration = 0, delivered = []\<rparr>"

text \<open>The function returned by \<open>onPageContextChange\<close>: it captured the listener and the
  bridge's unsubscribe function.\<close>

datatype unsubscribe_fn = Unsubscribe jsval nat

definition add_listener :: "jsval \<Rightarrow> jsval list \<Rightarrow> jsval list" where
  "add_listener l ls = (if l \<in> set ls then ls else ls @ [l])"

text \<open>
  \<open>onPageContextChange\<close>: the outcome and the world after the call. The listener is
  added to \<open>listeners\<close> before the bridge is called, so it stays there when the bridge
  throws.
\<close>

definition onPageContextChange ::
  "jsval \<Rightarrow> world \<Rightarrow> (PageContextServiceError + unsubscribe_fn) \<times> world" where
  "onPageContextChange listener w =
     (if \<not> isServiceAvailable (service w) then (Inl service_unavailable, w)
      else if \<not> validateListener listener
        then (Inl \<lparr>message = ''Invalid listener provided'', code = ''INVALID_LISTENER''\<rparr>, w)
      else
        case serviceBridge (service w) of
          None \<Rightarrow> (Inl service_unavailable, w)
        | Some b \<Rightarrow>
            let w1 = w\<lparr>service := (service w)\<lparr>listeners := add_listener listener (listeners (service w))\<rparr>\<rparr>
            in (case call_method (onPageContextChange_b b) of
                  Inl e \<Rightarrow>
                    (Inl \<lparr>message = ''Failed to add listener: '' @ message_of e,
                          code = ''ADD_LISTENER_FAILED''\<rparr>, w1)
                | Inr unsubscribe \<Rightarrow>
                    (Inr (Unsubscribe listener (next_registration w1)),
                     w1\<lparr>registry := registry w1 @ [(next_registration w1, listener)],
                        next_registration := next_registration w1 + 1\<rparr>)))"

definition call_unsubscribe :: "unsubscribe_fn \<Rightarrow> world \<Rightarrow> world" where
  "call_unsubscribe u w =
     (case u of
        Unsubscribe listener i \<Rightarrow>
          w\<lparr>service := (service w)\<lparr>listeners := removeAll listener (listeners (service w))\<rparr>,
            registry := filter (\<lambda>(j, l). j \<noteq> i) (registry w)\<rparr>)"

text \<open>The forwarding function that the wrapper registered: cache the context, then call
  the listener.\<close>

definition forward :: "jsval \<Rightarrow> jsval \<Rightarrow> world \<Rightarrow> world" where
  "forward listener context w =
     w\<lparr>service := (service w)\<lparr>cachedContext := context\<rparr>,
       delivered := delivered w @ [(listener, context)]\<rparr>"

definition bridge_notifies :: "jsval \<Rightarrow> world \<Rightarrow> world" where
  "bridge_notifies context w =
     foldl (\<lambda>w' (i, listener). forward listener context w') w (registry w)"

section \<open>Sequences of calls\<close>

text \<open>A run of change notifications, each with the time at which it is processed.\<close>

definition notifications :: "(iso_time \<times> jsval) list \<Rightarrow> event list" where
  "notifications ps = map (\<lambda>(t, p). Notification t p) ps"

text \<open>What a history entry says about the notification it records.\<close>

definition entry_of :: "PageContextChange \<Rightarrow> iso_time \<times> jsval" where
  "entry_of r = (timestamp r, newContext r)"

text \<open>Calling \<open>onPageContextChange\<close> of the wrapper once for each listener of a list.\<close>

fun subscribe_all :: "jsval list \<Rightarrow> world \<Rightarrow> world" where
  "subscribe_all [] w = w"
| "subscribe_all (l # ls) w = subscribe_all ls (snd (onPageContextChange l w))"

section \<open>Example inputs\<close>

definition home :: PageContextData where
  "home = \<lparr>pageId = ''x'', pageName = ''Home'', pageRoute = ''/''\<rparr>"

definition about_route :: PageContextData where
  "about_route = \<lparr>pageId = ''x'', pageName = ''Home'', pageRoute = ''/about''\<rparr>"

definition dashboard_about :: PageContextData where
  "dashboard_about = \<lparr>pageId = ''x'', pageName = ''Dashboard'', pageRoute = ''/about''\<rparr>"

definition other_page :: PageContextData where
  "other_page = \<lparr>pageId = ''y'', pageName = ''Home'', pageRoute = ''/''\<rparr>"

definition empty_id :: PageContextData where
  "empty_id = \<lparr>pageId = '''', pageName = ''Home'', pageRoute = ''/''\<rparr>"

definition working_bridge :: "jsval \<Rightarrow> PageContextServiceBridge" where
  "working_bridge initial =
     \<lparr>bridge_ref = 0, getCurrentPageContext_b = Returns initial,
      onPageContextChange_b = Returns TeardownOk\<rparr>"

text \<open>A component mounted on a working bridge whose current page is \<open>home\<close>.\<close>

definition listening_component :: PageContextListener where
  "listening_component =
     initializePageContextListener ''t0''
       (new_listener (Some \<lparr>pageContext = Some (working_bridge (context_obj 1 home))\<rparr>))"

text \<open>A wrapper connected to the same bridge, nothing registered yet.\<close>

definition connected_world :: world where
  "connected_world =
     new_world ((createPageContextService ''plugin'' ''module'')
                  \<lparr>serviceBridge := Some (working_bridge (context_obj 1 home)),
                   isConnected := True, cachedContext := context_obj 1 home\<rparr>)"

text \<open>Fifteen valid notifications, for pages \<open>p\<close>, \<open>pp\<close>, \<open>ppp\<close>, and so on.\<close>

definition page :: "nat \<Rightarrow> PageContextData" where
  "page n = \<lparr>pageId = replicate n CHR ''p'', pageName = ''Page'', pageRoute = ''/p''\<rparr>"

definition fifteen :: "(iso_time \<times> jsval) list" where
  "fifteen = map (\<lambda>n. (replicate n CHR ''t'', context_obj n (page n))) [1..<16]"

text \<open>Bridges that lack a method, fail to retrieve, or have no current page.\<close>

definition bridge_without_subscribe :: PageContextServiceBridge where
  "bridge_without_subscribe =
     \<lparr>bridge_ref = 0, getCurrentPageContext_b = Returns (context_obj 1 home),
      onPageContextChange_b = NotFunction\<rparr>"

definition failing_bridge :: PageContextServiceBridge where
  "failing_bridge =
     \<lparr>bridge_ref = 0, getCurrentPageContext_b = Throws (ErrorWith ''host failure''),
      onPageContextChange_b = Returns TeardownOk\<rparr>"

definition no_services :: Services where
  "no_services = \<lparr>pageContext = None\<rparr>"

text \<open>The connected wrapper, its cache holding \<open>home\<close>, once the bridge has no current page.\<close>

definition null_page_service :: PluginPageContextService where
  "null_page_service =
     (service connected_world)\<lparr>serviceBridge := Some (working_bridge JNull)\<rparr>"

section \<open>Facts about the model\<close>

lemmas listener_defs =
  initializePageContextListener_def initialize_try_def initialize_catch_def cleanup_def
  new_listener_def constructor_state_def is_function_def call_method_def Let_def

lemma listening_component_eq:
  "listening_component =
    \<lparr>services = Some \<lparr>pageContext = Some (working_bridge (context_obj 1 home))\<rparr>,
     state = \<lparr>isServiceConnected = True, isListening = True, error = '''',
              status = StatusActive,
              changeHistory = [\<lparr>timestamp = ''t0'', previousContext = JNull,
                                newContext = context_obj 1 home, changeType = ''Initial Load''\<rparr>],
              currentContext = context_obj 1 home\<rparr>,
     pageContextUnsubscribe = Some TeardownOk\<rparr>"
  by (simp add: listening_component_def listener_defs working_bridge_def context_obj_def)

lemma context_obj_accepted [simp]:
  "truthy (context_obj r d)" "js_typeof (context_obj r d) = ''object''"
  by (simp_all add: context_obj_def)

lemma context_obj_fields [simp]:
  "js_get (context_obj r d) ''pageId'' = JStr (pageId d)"
  "js_get (context_obj r d) ''pageName'' = JStr (pageName d)"
  "js_get (context_obj r d) ''pageRoute'' = JStr (pageRoute d)"
  by (simp_all add: context_obj_def)

lemma cleanup_state [simp]: "state (cleanup c) = state c"
  by (simp add: cleanup_def split: option.splits teardown.splits)

lemma cleanup_services [simp]: "services (cleanup c) = services c"
  by (simp add: cleanup_def split: option.splits teardown.splits)

lemma validate_accepted: "validatePageContext p \<Longrightarrow> truthy p \<and> js_typeof p = ''object''"
  by (auto simp add: validatePageContext_def split: if_splits)

lemma validate_context_obj [simp]: "validatePageContext (context_obj r d)"
  by (simp add: validatePageContext_def requiredFields_def)

subsection \<open>The history never grows beyond ten entries\<close>

lemma onChange_length:
  "length (changeHistory st) \<le> 10 \<Longrightarrow> length (changeHistory (onChange t p st)) \<le> 10"
  by (simp add: onChange_def Let_def)

lemma initialize_length:
  "length (changeHistory (state c)) \<le> 10 \<Longrightarrow>
   length (changeHistory (state (initializePageContextListener t c))) \<le> 10"
  by (simp add: initializePageContextListener_def initialize_try_def initialize_catch_def Let_def
      split: option.splits sum.splits)

lemma step_length:
  "length (changeHistory (state c)) \<le> 10 \<Longrightarrow> length (changeHistory (state (step c e))) \<le> 10"
proof (cases e)
  case (DidMount t)
  then show "length (changeHistory (state c)) \<le> 10 \<Longrightarrow> ?thesis"
    by (simp add: initialize_length)
next
  case (DidUpdate t props)
  then show "length (changeHistory (state c)) \<le> 10 \<Longrightarrow> ?thesis"
    by (simp add: componentDidUpdate_def initialize_length)
next
  case (Notification t p)
  then show "length (changeHistory (state c)) \<le> 10 \<Longrightarrow> ?thesis"
    by (simp add: notify_def onChange_length split: option.splits)
next
  case ClearHistory
  then show ?thesis by (simp add: handleClearHistory_def)
next
  case WillUnmount
  then show "length (changeHistory (state c)) \<le> 10 \<Longrightarrow> ?thesis" by simp
qed

lemma run_length:
  "length (changeHistory (state c)) \<le> 10 \<Longrightarrow> length (changeHistory (state (run c evs))) \<le> 10"
  unfolding run_def by (induction evs arbitrary: c) (simp_all add: step_length)

subsection \<open>The history holds the latest notifications, newest first\<close>

lemma take_cons_take: "k \<le> 10 \<Longrightarrow> take k (x # take 9 b) = take k (x # b)"
  by (cases k) (simp_all add: min_def)

lemma take_window: "take 10 (a @ x # take 9 b) = take 10 (a @ x # b)"
  by (simp add: take_cons_take)

lemma notify_entries:
  assumes "pageContextUnsubscribe c \<noteq> None" and "validatePageContext p"
  shows "map entry_of (changeHistory (state (notify t p c)))
           = (t, p) # take 9 (map entry_of (changeHistory (state c)))"
    and "pageContextUnsubscribe (notify t p c) \<noteq> None"
  using assms validate_accepted [of p]
  by (auto simp add: notify_def onChange_def entry_of_def Let_def take_map)

lemma run_notifications:
  "pageContextUnsubscribe c \<noteq> None \<Longrightarrow> list_all (\<lambda>(t, p). validatePageContext p) ps \<Longrightarrow>
   ps \<noteq> [] \<Longrightarrow>
   map entry_of (changeHistory (state (run c (notifications ps))))
     = take 10 (rev ps @ map entry_of (changeHistory (state c)))"
proof (induction ps arbitrary: c)
  case Nil
  then show ?case by simp
next
  case (Cons x ps)
  obtain t p where x: "x = (t, p)" by (cases x)
  from Cons.prems x have v: "validatePageContext p"
    and rest: "list_all (\<lambda>(t, p). validatePageContext p) ps"
    by simp_all
  note first = notify_entries [OF Cons.prems(1) v, of t]
  show ?case
  proof (cases "ps = []")
    case True
    then show ?thesis
      by (simp add: x run_def notifications_def first(1) take_cons_take [of 10, simplified])
  next
    case False
    have "map entry_of (changeHistory (state (run (notify t p c) (notifications ps))))
          = take 10 (rev ps @ map entry_of (changeHistory (state (notify t p c))))"
      using Cons.IH [OF first(2) rest False] .
    also have "\<dots> = take 10 (rev ps @ (t, p) # map entry_of (changeHistory (state c)))"
      by (simp only: first(1) take_window)
    finally show ?thesis
      by (simp add: x run_def notifications_def)
  qed
qed

lemma fifteen_newest_first:
  assumes "pageContextUnsubscribe c \<noteq> None" and "length ps = 15"
    and "list_all (\<lambda>(t, p). validatePageContext p) ps"
  shows "map entry_of (changeHistory (state (run c (notifications ps)))) = rev (drop 5 ps)"
proof -
  from assms(2) have ne: "ps \<noteq> []" by auto
  have "take 10 (rev ps @ map entry_of (changeHistory (state c))) = take 10 (rev ps)"
    using assms(2) by simp
  also have "\<dots> = rev (drop 5 ps)"
    using assms(2) by (simp add: take_rev)
  finally show ?thesis
    using run_notifications [OF assms(1) assms(3) ne] by simp
qed

lemma fifteen_facts:
  "length fifteen = 15" "list_all (\<lambda>(t, p). validatePageContext p) fifteen"
  by (simp_all add: fifteen_def list_all_iff)

subsection \<open>Registrations made by the wrapper\<close>

lemma subscribe_once:
  assumes "isServiceAvailable (service w)" and "serviceBridge (service w) = Some b"
    and "onPageContextChange_b b = Returns u" and "validateListener l"
  shows "onPageContextChange l w =
           (Inr (Unsubscribe l (next_registration w)),
            w\<lparr>service := (service w)\<lparr>listeners := add_listener l (listeners (service w))\<rparr>,
              registry := registry w @ [(next_registration w, l)],
              next_registration := next_registration w + 1\<rparr>)"
  using assms by (simp add: onPageContextChange_def call_method_def Let_def)

lemma subscribe_all_registry:
  assumes "isServiceAvailable (service w)" and "serviceBridge (service w) = Some b"
    and "onPageContextChange_b b = Returns u" and "list_all validateListener ls"
  shows "map snd (registry (subscribe_all ls w)) = map snd (registry w) @ ls"
  using assms
proof (induction ls arbitrary: w)
  case Nil
  then show ?case by simp
next
  case (Cons l ls)
  from Cons.prems have one: "onPageContextChange l w =
           (Inr (Unsubscribe l (next_registration w)),
            w\<lparr>service := (service w)\<lparr>listeners := add_listener l (listeners (service w))\<rparr>,
              registry := registry w @ [(next_registration w, l)],
              next_registration := next_registration w + 1\<rparr>)"
    by (simp add: subscribe_once)
  show ?case
    using Cons.prems by (simp add: one Cons.IH isServiceAvailable_def)
qed

lemmas wrapper_defs =
  connected_world_def new_world_def onPageContextChange_def isServiceAvailable_def
  createPageContextService_def validateListener_def working_bridge_def call_method_def
  add_listener_def Let_def

section \<open>The claims\<close>

text \<open>
  C1. A notification payload whose fields are not all non-empty strings should leave the
  stored context and the history alone and reach no listener. The code drops only a
  payload that is falsy or not an object. At the payload
  \<open>{pageId: "", pageName: "Home", pageRoute: "/"}\<close> the component stores the payload and
  records a change, and the wrapper caches it and calls the caller's listener with it;
  the wrapper's own validator accepts it as well, an empty string being a string.
\<close>

theorem C1_empty_id_payload_is_processed:
  "currentContext (state (notify ''t1'' (context_obj 2 empty_id) listening_component))
     = context_obj 2 empty_id
   \<and> length (changeHistory (state listening_component)) = 1
   \<and> length (changeHistory (state (notify ''t1'' (context_obj 2 empty_id) listening_component))) = 2
   \<and> delivered (bridge_notifies (context_obj 2 empty_id)
                  (snd (onPageContextChange (JFun 1) connected_world)))
     = [(JFun 1, context_obj 2 empty_id)]
   \<and> cachedContext (service (bridge_notifies (context_obj 2 empty_id)
                  (snd (onPageContextChange (JFun 1) connected_world))))
     = context_obj 2 empty_id
   \<and> validatePageContext (context_obj 2 empty_id)"
proof -
  have component:
    "state (notify ''t1'' (context_obj 2 empty_id) listening_component) =
       \<lparr>isServiceConnected = True, isListening = True, error = '''',
        status = StatusChanged ''Page Navigation'' ''t1'',
        changeHistory =
          [\<lparr>timestamp = ''t1'', previousContext = context_obj 1 home,
            newContext = context_obj 2 empty_id, changeType = ''Page Navigation''\<rparr>,
           \<lparr>timestamp = ''t0'', previousContext = JNull,
            newContext = context_obj 1 home, changeType = ''Initial Load''\<rparr>],
        currentContext = context_obj 2 empty_id\<rparr>"
    by (simp add: listening_component_eq notify_def onChange_def determineChangeType_def
        home_def empty_id_def Let_def)
  have wrapper:
    "bridge_notifies (context_obj 2 empty_id) (snd (onPageContextChange (JFun 1) connected_world)) =
       \<lparr>service = (service connected_world)
                    \<lparr>listeners := [JFun 1], cachedContext := context_obj 2 empty_id\<rparr>,
        registry = [(0, JFun 1)], next_registration = 1,
        delivered = [(JFun 1, context_obj 2 empty_id)]\<rparr>"
    by (simp add: connected_world_def new_world_def onPageContextChange_def
        isServiceAvailable_def createPageContextService_def validateListener_def
        working_bridge_def call_method_def add_listener_def bridge_notifies_def forward_def
        Let_def)
  have valid: "validatePageContext (context_obj 2 empty_id)"
    by (simp add: validatePageContext_def requiredFields_def)
  show ?thesis
    unfolding component wrapper using valid by (simp add: listening_component_eq)
qed

theorem C1_witness:
  "currentContext (state (notify ''t1'' (context_obj 2 empty_id) listening_component))
     = context_obj 2 empty_id"
  by (rule C1_empty_id_payload_is_processed [THEN conjunct1])

text \<open>
  C2. With the page id unchanged and both the name and the route changed, the change
  should be a route change, the route being tested before the name. The code tests the
  name before the route: from \<open>{x, Home, /}\<close> to \<open>{x, Dashboard, /about}\<close> it answers
  \<open>Page Name Change\<close>. When only the route differs it answers \<open>Route Change\<close>.
\<close>

theorem C2_name_is_tested_before_route:
  "determineChangeType (context_obj 1 home) (context_obj 2 dashboard_about) = ''Page Name Change''
   \<and> determineChangeType (context_obj 1 home) (context_obj 2 about_route) = ''Route Change''"
  by (simp add: determineChangeType_def home_def dashboard_about_def about_route_def)

text \<open>
  C3. Attaching with no bridge should never raise, and should leave the client
  disconnected with an empty history. The wrapper's \<open>setServiceBridge\<close> has a guard that
  rejects an absent bridge with the error \<open>INVALID_BRIDGE\<close>. The listener component does
  what the claim says: given a services container without a page context bridge,
  \<open>initializePageContextListener\<close> completes, marks the component as not connected and
  not listening, clears the error and empties the history.
\<close>

theorem C3_listener_waits_without_bridge:
  assumes "services c = Some svcs" and "pageContext svcs = None"
  shows "state (initializePageContextListener now c) =
           (state c)\<lparr>status := StatusWaiting, isServiceConnected := False,
                      isListening := False, error := '''', changeHistory := []\<rparr>"
  using assms
  by (simp add: initializePageContextListener_def initialize_try_def Let_def)

theorem C3_witness:
  "state (initializePageContextListener ''t2'' (listening_component\<lparr>services := Some no_services\<rparr>)) =
     \<lparr>isServiceConnected = False, isListening = False, error = '''',
      status = StatusWaiting, changeHistory = [], currentContext = context_obj 1 home\<rparr>"
proof -
  have s: "services (listening_component\<lparr>services := Some no_services\<rparr>) = Some no_services"
    by simp
  have p: "pageContext no_services = None"
    by (simp add: no_services_def)
  show ?thesis
    unfolding C3_listener_waits_without_bridge [OF s p]
    by (simp add: listening_component_eq)
qed

text \<open>
  C3, as stated, fails on the wrapper: \<open>setServiceBridge(null)\<close> throws.
\<close>

theorem C3_wrapper_rejects_absent_bridge:
  "setServiceBridge None (createPageContextService ''plugin'' ''module'') =
     Inl \<lparr>message = ''Service bridge cannot be null'', code = ''INVALID_BRIDGE''\<rparr>"
  by (simp add: setServiceBridge_def)

text \<open>
  C4. Attaching a bridge that lacks one of the two methods should fail with an error that
  names the missing method and leave the client disconnected. The wrapper's
  \<open>setServiceBridge\<close> makes no such test: a bridge without \<open>onPageContextChange\<close> is
  accepted and the wrapper is connected. The listener component makes the test, for
  \<open>onPageContextChange\<close> first: its initialization stops with a message that names the
  missing method, which it catches itself and records in its state instead of raising it
  to its caller, and the component is left not connected and not listening.
\<close>

theorem C4_listener_reports_missing_method:
  assumes "services c = Some svcs" and "pageContext svcs = Some b"
  shows "(\<not> is_function (onPageContextChange_b b) \<longrightarrow>
            state (initializePageContextListener now c) =
              (state c)\<lparr>status := StatusFailed ''PageContext Service missing onPageContextChange method'',
                         isServiceConnected := False, isListening := False,
                         error := ''PageContext Service missing onPageContextChange method''\<rparr>)
       \<and> (is_function (onPageContextChange_b b) \<and> \<not> is_function (getCurrentPageContext_b b) \<longrightarrow>
            state (initializePageContextListener now c) =
              (state c)\<lparr>status := StatusFailed ''PageContext Service missing getCurrentPageContext method'',
                         isServiceConnected := False, isListening := False,
                         error := ''PageContext Service missing getCurrentPageContext method''\<rparr>)"
  using assms
  by (simp add: initializePageContextListener_def initialize_try_def initialize_catch_def Let_def)

theorem C4_witness:
  "state (initializePageContextListener ''t0''
            (new_listener (Some \<lparr>pageContext = Some bridge_without_subscribe\<rparr>))) =
     \<lparr>isServiceConnected = False, isListening = False,
      error = ''PageContext Service missing onPageContextChange method'',
      status = StatusFailed ''PageContext Service missing onPageContextChange method'',
      changeHistory = [], currentContext = JNull\<rparr>"
proof -
  have s: "services (new_listener (Some \<lparr>pageContext = Some bridge_without_subscribe\<rparr>))
             = Some \<lparr>pageContext = Some bridge_without_subscribe\<rparr>"
    by (simp add: new_listener_def)
  have p: "pageContext \<lparr>pageContext = Some bridge_without_subscribe\<rparr> = Some bridge_without_subscribe"
    by simp
  have m: "\<not> is_function (onPageContextChange_b bridge_without_subscribe)"
    by (simp add: is_function_def bridge_without_subscribe_def)
  show ?thesis
    using C4_listener_reports_missing_method [OF s p, of "''t0''"] m
    by (simp add: new_listener_def constructor_state_def)
qed

text \<open>
  C4, as stated, fails on the wrapper: a bridge without \<open>onPageContextChange\<close> is attached
  without an error, and the wrapper is connected.
\<close>

theorem C4_wrapper_accepts_bridge_without_subscribe:
  "setServiceBridge (Some bridge_without_subscribe) (createPageContextService ''plugin'' ''module'') =
     Inr ((createPageContextService ''plugin'' ''module'')
            \<lparr>serviceBridge := Some bridge_without_subscribe, isConnected := True,
             cachedContext := context_obj 1 home\<rparr>)"
  by (simp add: setServiceBridge_def bridge_without_subscribe_def call_method_def)

text \<open>
  C5. When the bridge's \<open>getCurrentPageContext\<close> throws during attachment, the error is
  caught, the current context is absent (null), and the client is connected all the same.
  This holds for \<open>setServiceBridge\<close> of the wrapper, which returns normally. It holds for
  the listener component too: when the subscription that follows succeeds, the component
  is connected and listening, with a null context and an empty history.
\<close>

theorem C5_retrieval_failure_is_absorbed:
  assumes "getCurrentPageContext_b b = Throws e"
  shows "setServiceBridge (Some b) s =
           Inr (s\<lparr>serviceBridge := Some b, isConnected := True, cachedContext := JNull\<rparr>)
       \<and> (services c = Some svcs \<and> pageContext svcs = Some b \<and> onPageContextChange_b b = Returns u
            \<longrightarrow> state (initializePageContextListener now c) =
                   (state c)\<lparr>currentContext := JNull, changeHistory := [],
                              isServiceConnected := True, isListening := True,
                              status := StatusActive, error := ''''\<rparr>
              \<and> pageContextUnsubscribe (initializePageContextListener now c) = Some u)"
  using assms
  by (simp add: setServiceBridge_def initializePageContextListener_def initialize_try_def
      is_function_def call_method_def Let_def)

theorem C5_witness:
  "setServiceBridge (Some failing_bridge) (createPageContextService ''plugin'' ''module'') =
     Inr \<lparr>pluginId = ''plugin'', moduleId = ''module'', serviceBridge = Some failing_bridge,
          isConnected = True, listeners = [], cachedContext = JNull, operationCount = 0\<rparr>
   \<and> state (initializePageContextListener ''t0''
              (new_listener (Some \<lparr>pageContext = Some failing_bridge\<rparr>))) =
       \<lparr>isServiceConnected = True, isListening = True, error = '''',
        status = StatusActive, changeHistory = [], currentContext = JNull\<rparr>"
proof -
  have t: "getCurrentPageContext_b failing_bridge = Throws (ErrorWith ''host failure'')"
    by (simp add: failing_bridge_def)
  have s: "services (new_listener (Some \<lparr>pageContext = Some failing_bridge\<rparr>))
             = Some \<lparr>pageContext = Some failing_bridge\<rparr>"
    by (simp add: new_listener_def)
  have u: "onPageContextChange_b failing_bridge = Returns TeardownOk"
    by (simp add: failing_bridge_def)
  show ?thesis
    using C5_retrieval_failure_is_absorbed [OF t,
        of "createPageContextService ''plugin'' ''module''"
           "new_listener (Some \<lparr>pageContext = Some failing_bridge\<rparr>)"
           "\<lparr>pageContext = Some failing_bridge\<rparr>" TeardownOk "''t0''"] s u
    by (simp add: createPageContextService_def new_listener_def constructor_state_def)
qed

text \<open>
  C6. The history of the listener component never holds more than ten entries, in any
  run of the component from its construction. After fifteen valid notifications processed
  by a registered listener it holds exactly ten entries: the last ten notifications,
  the most recent first; the first five are gone.
\<close>

theorem C6_history_is_capped_newest_first:
  "length (changeHistory (state (run (new_listener props) evs))) \<le> 10
   \<and> (pageContextUnsubscribe c \<noteq> None \<and> length ps = 15
        \<and> list_all (\<lambda>(t, p). validatePageContext p) ps
      \<longrightarrow> length (changeHistory (state (run c (notifications ps)))) = 10
        \<and> map entry_of (changeHistory (state (run c (notifications ps)))) = rev (drop 5 ps))"
proof (intro conjI impI)
  show "length (changeHistory (state (run (new_listener props) evs))) \<le> 10"
    by (rule run_length) (simp add: new_listener_def constructor_state_def)
next
  assume a: "pageContextUnsubscribe c \<noteq> None \<and> length ps = 15
        \<and> list_all (\<lambda>(t, p). validatePageContext p) ps"
  then have entries:
    "map entry_of (changeHistory (state (run c (notifications ps)))) = rev (drop 5 ps)"
    by (simp add: fifteen_newest_first)
  then show "map entry_of (changeHistory (state (run c (notifications ps)))) = rev (drop 5 ps)" .
  have "length (map entry_of (changeHistory (state (run c (notifications ps))))) = 10"
    using a by (simp only: entries) simp
  then show "length (changeHistory (state (run c (notifications ps)))) = 10"
    by simp
qed

theorem C6_witness:
  "length (changeHistory (state (run (new_listener (Some no_services))
                                     (DidMount ''t0'' # notifications fifteen)))) \<le> 10
   \<and> length (changeHistory (state (run listening_component (notifications fifteen)))) = 10
   \<and> map entry_of (changeHistory (state (run listening_component (notifications fifteen))))
       = rev (drop 5 fifteen)"
proof -
  have l: "pageContextUnsubscribe listening_component \<noteq> None"
    by (simp add: listening_component_eq)
  show ?thesis
    using C6_history_is_capped_newest_first
            [of "Some no_services" "DidMount ''t0'' # notifications fifteen"
                listening_component fifteen]
      l fifteen_facts
    by blast
qed

text \<open>
  C7. When a previous context is present and the new context has another page id, the
  change is a page change (\<open>Page Navigation\<close> in the code), whatever the names and the
  routes are: the page id is the first field tested. The listener records that kind at
  the head of the history.
\<close>

theorem C7_page_id_is_tested_first:
  assumes "pageId p \<noteq> pageId c"
  shows "determineChangeType (context_obj r p) (context_obj r' c) = ''Page Navigation''
    \<and> (currentContext st = context_obj r p \<longrightarrow>
         changeHistory (onChange now (context_obj r' c) st) =
           \<lparr>timestamp = now, previousContext = context_obj r p,
            newContext = context_obj r' c, changeType = ''Page Navigation''\<rparr>
           # take 9 (changeHistory st))"
  using assms by (simp add: determineChangeType_def onChange_def Let_def)

theorem C7_witness:
  "determineChangeType (context_obj 1 home) (context_obj 2 other_page) = ''Page Navigation''
   \<and> changeHistory (onChange ''t1'' (context_obj 2 other_page) (state listening_component)) =
       [\<lparr>timestamp = ''t1'', previousContext = context_obj 1 home,
         newContext = context_obj 2 other_page, changeType = ''Page Navigation''\<rparr>,
        \<lparr>timestamp = ''t0'', previousContext = JNull,
         newContext = context_obj 1 home, changeType = ''Initial Load''\<rparr>]"
proof -
  have ids: "pageId home \<noteq> pageId other_page"
    by (simp add: home_def other_page_def)
  have cur: "currentContext (state listening_component) = context_obj 1 home"
    by (simp add: listening_component_eq)
  show ?thesis
    using C7_page_id_is_tested_first [OF ids, of 1 2 "state listening_component" "''t1''"] cur
    by (simp add: listening_component_eq)
qed

text \<open>
  C8. A second \<open>subscribe()\<close> should be a no-op that returns the existing teardown
  handle, with one forwarding listener registered with the bridge however many listeners
  are added. The wrapper registers a forwarding function with the bridge at every call of
  \<open>onPageContextChange\<close>, also for a listener it already has, and returns a new teardown
  function each time. What holds is one registration per successful call: after the calls
  for a list of listeners, the bridge holds one more forwarding function for each of
  them, in the order of the calls.
\<close>

theorem C8_one_registration_per_call:
  assumes "isServiceAvailable (service w)" and "serviceBridge (service w) = Some b"
    and "onPageContextChange_b b = Returns u"
  shows "(validateListener l \<longrightarrow>
            fst (onPageContextChange l w) = Inr (Unsubscribe l (next_registration w))
          \<and> registry (snd (onPageContextChange l w)) = registry w @ [(next_registration w, l)])
       \<and> (list_all validateListener ls \<longrightarrow>
            map snd (registry (subscribe_all ls w)) = map snd (registry w) @ ls
          \<and> length (registry (subscribe_all ls w)) = length (registry w) + length ls)"
proof (intro conjI impI)
  assume v: "validateListener l"
  show "fst (onPageContextChange l w) = Inr (Unsubscribe l (next_registration w))"
    by (simp add: subscribe_once [OF assms v])
  show "registry (snd (onPageContextChange l w)) = registry w @ [(next_registration w, l)]"
    by (simp add: subscribe_once [OF assms v])
next
  assume v: "list_all validateListener ls"
  show r: "map snd (registry (subscribe_all ls w)) = map snd (registry w) @ ls"
    by (rule subscribe_all_registry [OF assms v])
  have "length (map snd (registry (subscribe_all ls w))) = length (registry w) + length ls"
    by (simp only: r) simp
  then show "length (registry (subscribe_all ls w)) = length (registry w) + length ls"
    by simp
qed

theorem C8_witness:
  "registry (snd (onPageContextChange (JFun 1) connected_world)) = [(0, JFun 1)]
   \<and> map snd (registry (subscribe_all [JFun 1, JFun 2, JFun 1] connected_world))
       = [JFun 1, JFun 2, JFun 1]
   \<and> length (registry (subscribe_all [JFun 1, JFun 2, JFun 1] connected_world)) = 3"
proof -
  have a: "isServiceAvailable (service connected_world)"
    by (simp add: connected_world_def new_world_def isServiceAvailable_def)
  have b: "serviceBridge (service connected_world) = Some (working_bridge (context_obj 1 home))"
    by (simp add: connected_world_def new_world_def)
  have u: "onPageContextChange_b (working_bridge (context_obj 1 home)) = Returns TeardownOk"
    by (simp add: working_bridge_def)
  have e: "registry connected_world = []" "next_registration connected_world = 0"
    by (simp_all add: connected_world_def new_world_def)
  show ?thesis
    using C8_one_registration_per_call [OF a b u, of "JFun 1" "[JFun 1, JFun 2, JFun 1]"] e
    by (simp add: validateListener_def)
qed

text \<open>
  C8, as stated, fails: the second call for the same listener returns another teardown
  function and leaves two forwarding functions registered with the bridge.
\<close>

theorem C8_second_subscribe_registers_again:
  "fst (onPageContextChange (JFun 1) connected_world) = Inr (Unsubscribe (JFun 1) 0)
   \<and> fst (onPageContextChange (JFun 1) (snd (onPageContextChange (JFun 1) connected_world)))
       = Inr (Unsubscribe (JFun 1) 1)
   \<and> registry (snd (onPageContextChange (JFun 1) (snd (onPageContextChange (JFun 1) connected_world))))
       = [(0, JFun 1), (1, JFun 1)]"
  by (simp add: wrapper_defs)

text \<open>
  C9. While the wrapper has no bridge attached, \<open>getCurrentPageContext\<close> and
  \<open>onPageContextChange\<close> both fail with the error \<open>SERVICE_UNAVAILABLE\<close>, the code's
  name for not being connected; neither returns a value and nothing changes.
\<close>

theorem C9_disconnected_operations_fail:
  assumes "\<not> isServiceAvailable (service w)"
  shows "getCurrentPageContext (service w) = Inl service_unavailable
       \<and> onPageContextChange l w = (Inl service_unavailable, w)
       \<and> code service_unavailable = ''SERVICE_UNAVAILABLE''"
  using assms
  by (simp add: getCurrentPageContext_def onPageContextChange_def service_unavailable_def)

theorem C9_witness:
  "getCurrentPageContext (createPageContextService ''plugin'' ''module'') = Inl service_unavailable
   \<and> onPageContextChange (JFun 1) (new_world (createPageContextService ''plugin'' ''module''))
       = (Inl service_unavailable, new_world (createPageContextService ''plugin'' ''module''))
   \<and> code service_unavailable = ''SERVICE_UNAVAILABLE''"
proof -
  have d: "\<not> isServiceAvailable (service (new_world (createPageContextService ''plugin'' ''module'')))"
    by (simp add: new_world_def createPageContextService_def isServiceAvailable_def)
  have s: "service (new_world (createPageContextService ''plugin'' ''module''))
             = createPageContextService ''plugin'' ''module''"
    by (simp add: new_world_def)
  show ?thesis
    using C9_disconnected_operations_fail [OF d, of "JFun 1"] by (simp only: s) 
qed

text \<open>
  C10. When the wrapper is connected and the bridge has no current page,
  \<open>getCurrentPageContext\<close> returns null without an error and stores null as the wrapper's
  cached context. The classification of a notification is not made from that cache: the
  listener component classifies from its own \<open>state.currentContext\<close>, and records
  \<open>Initial Load\<close> exactly when that context is falsy. It is null, and the next valid
  notification an initial load, after the component itself was set up on a bridge whose
  \<open>getCurrentPageContext\<close> returned null.
\<close>

theorem C10_null_is_cached_and_component_classifies_from_own_state:
  assumes "isServiceAvailable s" and "serviceBridge s = Some b"
    and "getCurrentPageContext_b b = Returns JNull"
  shows "getCurrentPageContext s =
           Inr (JNull, s\<lparr>cachedContext := JNull, operationCount := operationCount s + 1\<rparr>)
       \<and> (pageContextUnsubscribe c \<noteq> None \<and> validatePageContext new \<longrightarrow>
            changeHistory (state (notify now new c)) =
              \<lparr>timestamp = now, previousContext = currentContext (state c), newContext = new,
               changeType = determineChangeType (currentContext (state c)) new\<rparr>
              # take 9 (changeHistory (state c))
          \<and> (determineChangeType (currentContext (state c)) new = ''Initial Load'')
              = (\<not> truthy (currentContext (state c))))
       \<and> (services c = Some svcs \<and> pageContext svcs = Some b
            \<and> onPageContextChange_b b = Returns u \<and> validatePageContext new \<longrightarrow>
            changeHistory (state (notify now new (initializePageContextListener start c))) =
              [\<lparr>timestamp = now, previousContext = JNull, newContext = new,
                changeType = ''Initial Load''\<rparr>])"
proof (intro conjI impI)
  show "getCurrentPageContext s =
          Inr (JNull, s\<lparr>cachedContext := JNull, operationCount := operationCount s + 1\<rparr>)"
    using assms by (simp add: getCurrentPageContext_def call_method_def)
next
  assume a: "pageContextUnsubscribe c \<noteq> None \<and> validatePageContext new"
  then show "changeHistory (state (notify now new c)) =
              \<lparr>timestamp = now, previousContext = currentContext (state c), newContext = new,
               changeType = determineChangeType (currentContext (state c)) new\<rparr>
              # take 9 (changeHistory (state c))"
    using validate_accepted [of new]
    by (auto simp add: notify_def onChange_def Let_def)
  show "(determineChangeType (currentContext (state c)) new = ''Initial Load'')
          = (\<not> truthy (currentContext (state c)))"
    by (simp add: determineChangeType_def)
next
  assume a: "services c = Some svcs \<and> pageContext svcs = Some b
            \<and> onPageContextChange_b b = Returns u \<and> validatePageContext new"
  then show "changeHistory (state (notify now new (initializePageContextListener start c))) =
              [\<lparr>timestamp = now, previousContext = JNull, newContext = new,
                changeType = ''Initial Load''\<rparr>]"
    using assms(3) validate_accepted [of new]
    by (simp add: initializePageContextListener_def initialize_try_def is_function_def
        call_method_def notify_def onChange_def determineChangeType_def Let_def)
qed

theorem C10_witness:
  "getCurrentPageContext null_page_service =
     Inr (JNull, null_page_service\<lparr>cachedContext := JNull, operationCount := 1\<rparr>)
   \<and> changeHistory (state (notify ''t1'' (context_obj 2 other_page) listening_component)) =
       [\<lparr>timestamp = ''t1'', previousContext = context_obj 1 home,
         newContext = context_obj 2 other_page, changeType = ''Page Navigation''\<rparr>,
        \<lparr>timestamp = ''t0'', previousContext = JNull,
         newContext = context_obj 1 home, changeType = ''Initial Load''\<rparr>]
   \<and> changeHistory (state (notify ''t1'' (context_obj 2 home)
        (initializePageContextListener ''t0''
           (new_listener (Some \<lparr>pageContext = Some (working_bridge JNull)\<rparr>))))) =
       [\<lparr>timestamp = ''t1'', previousContext = JNull, newContext = context_obj 2 home,
         changeType = ''Initial Load''\<rparr>]"
proof -
  have a: "isServiceAvailable null_page_service"
    by (simp add: null_page_service_def connected_world_def new_world_def isServiceAvailable_def)
  have b: "serviceBridge null_page_service = Some (working_bridge JNull)"
    by (simp add: null_page_service_def)
  have r: "getCurrentPageContext_b (working_bridge JNull) = Returns JNull"
    by (simp add: working_bridge_def)
  have o: "operationCount null_page_service = 0"
    by (simp add: null_page_service_def connected_world_def new_world_def
        createPageContextService_def)
  have l: "pageContextUnsubscribe listening_component \<noteq> None"
    by (simp add: listening_component_eq)
  have v: "validatePageContext (context_obj 2 other_page)" "validatePageContext (context_obj 2 home)"
    by simp_all
  have k: "determineChangeType (context_obj 1 home) (context_obj 2 other_page) = ''Page Navigation''"
    by (simp add: determineChangeType_def home_def other_page_def)
  have s: "services (new_listener (Some \<lparr>pageContext = Some (working_bridge JNull)\<rparr>))
             = Some \<lparr>pageContext = Some (working_bridge JNull)\<rparr>"
    by (simp add: new_listener_def)
  have u: "onPageContextChange_b (working_bridge JNull) = Returns TeardownOk"
    by (simp add: working_bridge_def)
  note first =
    C10_null_is_cached_and_component_classifies_from_own_state
      [OF a b r, where c = listening_component and new = "context_obj 2 other_page"
          and now = "''t1''"]
  note second =
    C10_null_is_cached_and_component_classifies_from_own_state
      [OF a b r,
        where c = "new_listener (Some \<lparr>pageContext = Some (working_bridge JNull)\<rparr>)"
          and new = "context_obj 2 home" and now = "''t1''" and start = "''t0''"
          and svcs = "\<lparr>pageContext = Some (working_bridge JNull)\<rparr>" and u = TeardownOk]
  from first have h0:
    "getCurrentPageContext null_page_service =
       Inr (JNull, null_page_service\<lparr>cachedContext := JNull,
                                       operationCount := operationCount null_page_service + 1\<rparr>)"
    by (rule conjunct1)
  from first l v(1) have h1:
    "changeHistory (state (notify ''t1'' (context_obj 2 other_page) listening_component)) =
       \<lparr>timestamp = ''t1'', previousContext = currentContext (state listening_component),
        newContext = context_obj 2 other_page,
        changeType = determineChangeType (currentContext (state listening_component))
                       (context_obj 2 other_page)\<rparr>
       # take 9 (changeHistory (state listening_component))"
    by blast
  have pc: "pageContext \<lparr>pageContext = Some (working_bridge JNull)\<rparr> = Some (working_bridge JNull)"
    by simp
  from second s pc u v(2) have h2:
    "changeHistory (state (notify ''t1'' (context_obj 2 home)
        (initializePageContextListener ''t0''
           (new_listener (Some \<lparr>pageContext = Some (working_bridge JNull)\<rparr>))))) =
       [\<lparr>timestamp = ''t1'', previousContext = JNull, newContext = context_obj 2 home,
         changeType = ''Initial Load''\<rparr>]"
    by blast
  have cur: "currentContext (state listening_component) = context_obj 1 home"
    and hist: "changeHistory (state listening_component) =
                 [\<lparr>timestamp = ''t0'', previousContext = JNull,
                   newContext = context_obj 1 home, changeType = ''Initial Load''\<rparr>]"
    by (simp_all add: listening_component_eq)
  show ?thesis
    unfolding h0 h1 h2 cur hist k o by simp
qed

text \<open>
  C10, as stated, fails: the wrapper, whose cache held \<open>home\<close>, returns and stores null;
  the next valid notification, processed by a component that was mounted when the page
  was \<open>home\<close>, is recorded as \<open>Page Navigation\<close>, not as an initial load.
\<close>

theorem C10_wrapper_null_does_not_make_initial_load:
  "cachedContext null_page_service = context_obj 1 home
   \<and> getCurrentPageContext null_page_service =
       Inr (JNull, null_page_service\<lparr>cachedContext := JNull, operationCount := 1\<rparr>)
   \<and> map changeType
        (changeHistory (state (notify ''t1'' (context_obj 2 other_page) listening_component)))
       = [''Page Navigation'', ''Initial Load'']"
  by (simp add: null_page_service_def connected_world_def new_world_def isServiceAvailable_def
      createPageContextService_def getCurrentPageContext_def call_method_def working_bridge_def
      listening_component_eq notify_def onChange_def determineChangeType_def
      home_def other_page_def Let_def)

end
